theory Spec2Isabelle
  imports Complex_Main "HOL-Library.Word"
begin

section \<open>The prediction client of \<^verbatim>\<open>HPP/client/app.js\<close>\<close>

text \<open>
  The script is a browser-side form handler: a liveness probe on page load
  (\<^verbatim>\<open>checkApiStatus\<close>), a currency formatter (\<^verbatim>\<open>formatPrice\<close>), two functions that
  write to the page (\<^verbatim>\<open>setLoading\<close>, \<^verbatim>\<open>showResult\<close>) and the asynchronous submit
  handler of the form. The embedding keeps this structure. Every write to the page,
  every timer and every request is an effect appended to a trace, a JavaScript
  exception is a result value, and the answer of the network is an argument of the
  handler.
\<close>

subsection \<open>JavaScript strings\<close>

text \<open>
  A JavaScript string is a sequence of 16-bit code units. A literal of the source whose
  characters are all ASCII is written \<open>lit ''...''\<close>; the three emoji of the script are
  given by their UTF-16 code units.
\<close>

type_synonym jsstring = "16 word list"

definition lit :: "string \<Rightarrow> jsstring" where
  "lit s = map (\<lambda>c. of_char c) s"

definition cross_mark :: jsstring where
  \<comment> \<open>U+274C\<close>
  "cross_mark = [0x274C]"

definition check_mark :: jsstring where
  \<comment> \<open>U+2705\<close>
  "check_mark = [0x2705]"

definition party_popper :: jsstring where
  \<comment> \<open>U+1F389, a surrogate pair\<close>
  "party_popper = [0xD83C, 0xDF89]"

subsection \<open>JavaScript numbers and values\<close>

text \<open>
  A Number is a double. Only its special values matter to the control flow of the script
  (\<open>NaN\<close>, the infinities, the two zeros), so a finite non-zero double is represented by
  the rational it denotes and \<open>Fin 0\<close> is \<open>+0\<close>. No arithmetic on doubles is performed
  by the script; the one place where a double is produced from an integer
  (\<^verbatim>\<open>parseInt\<close>) rounds explicitly, see \<open>number_of_int\<close>.
\<close>

datatype jsnum = NaN | PosInf | NegInf | NegZero | Fin rat

datatype jsval =
    JUndefined
  | JNull
  | JBool bool
  | JNum jsnum
  | JStr jsstring
  | JArr "jsval list"
  | JObj "(jsstring \<times> jsval) list"
    \<comment> \<open>a plain object as \<^verbatim>\<open>JSON.parse\<close> or an object literal builds it: its own
       properties in creation order; a lookup reads the first entry of a key\<close>

datatype exn =
    Error jsstring
  | TypeError
  | SyntaxError
  | DOMException

text \<open>\<^verbatim>\<open>ToBoolean\<close>: the truthiness that \<^verbatim>\<open>&&\<close>, \<^verbatim>\<open>||\<close> and \<^verbatim>\<open>if\<close> test.\<close>

fun ToBoolean :: "jsval \<Rightarrow> bool" where
  "ToBoolean JUndefined = False"
| "ToBoolean JNull = False"
| "ToBoolean (JBool b) = b"
| "ToBoolean (JNum NaN) = False"
| "ToBoolean (JNum NegZero) = False"
| "ToBoolean (JNum (Fin q)) = (q \<noteq> 0)"
| "ToBoolean (JNum PosInf) = True"
| "ToBoolean (JNum NegInf) = True"
| "ToBoolean (JStr s) = (s \<noteq> [])"
| "ToBoolean (JArr xs) = True"
| "ToBoolean (JObj kvs) = True"

subsection \<open>\<^verbatim>\<open>parseInt\<close> with no radix argument\<close>

text \<open>
  The built-in follows ECMA-262 (\<^verbatim>\<open>parseInt(string, radix)\<close> with \<^verbatim>\<open>radix\<close>
  undefined): leading white space is dropped, an optional sign is read, a prefix
  \<^verbatim>\<open>0x\<close> or \<^verbatim>\<open>0X\<close> selects radix 16, the longest run of digits of the radix is
  taken, and no digit at all gives \<open>NaN\<close>. The integer read is converted to a double.
  (For more than 20 decimal digits the standard lets an implementation replace the
  digits after the 20th by zeros before the conversion; the exact integer is taken here.
  Whether the result is \<open>NaN\<close> does not depend on it.)
\<close>

definition is_white_space :: "16 word \<Rightarrow> bool" where
  "is_white_space c \<longleftrightarrow>
     c = 0x9 \<or> c = 0xA \<or> c = 0xB \<or> c = 0xC \<or> c = 0xD \<or> c = 0x20 \<or> c = 0xA0 \<or>
     c = 0x1680 \<or> (0x2000 \<le> c \<and> c \<le> 0x200A) \<or> c = 0x2028 \<or> c = 0x2029 \<or>
     c = 0x202F \<or> c = 0x205F \<or> c = 0x3000 \<or> c = 0xFEFF"

definition digit_value :: "16 word \<Rightarrow> nat option" where
  "digit_value c =
     (if 0x30 \<le> c \<and> c \<le> 0x39 then Some (unat c - 0x30)
      else if 0x61 \<le> c \<and> c \<le> 0x7A then Some (unat c - 0x61 + 10)
      else if 0x41 \<le> c \<and> c \<le> 0x5A then Some (unat c - 0x41 + 10)
      else None)"

definition is_radix_digit :: "nat \<Rightarrow> 16 word \<Rightarrow> bool" where
  "is_radix_digit R c = (case digit_value c of None \<Rightarrow> False | Some d \<Rightarrow> d < R)"

definition digits_value :: "nat \<Rightarrow> jsstring \<Rightarrow> nat" where
  "digits_value R Z = foldl (\<lambda>a c. a * R + the (digit_value c)) 0 Z"

fun bit_length :: "nat \<Rightarrow> nat" where
  "bit_length n = (if n = 0 then 0 else Suc (bit_length (n div 2)))"

declare bit_length.simps [simp del]

text \<open>
  The double nearest to a non-zero integer: 53 significant bits, ties to the even
  significand, an infinity from \<open>2 ^ 1024\<close> on.
\<close>

definition number_of_int :: "int \<Rightarrow> jsnum" where
  "number_of_int i =
     (let m = nat \<bar>i\<bar>;
          e = bit_length m - 53;
          q = m div 2 ^ e;
          r = m mod 2 ^ e;
          q' = (if 2 * r > 2 ^ e \<or> (2 * r = 2 ^ e \<and> odd q) then q + 1 else q);
          v = q' * 2 ^ e
      in if v \<ge> 2 ^ 1024 then (if i < 0 then NegInf else PosInf)
         else Fin (of_int (sgn i * int v)))"

definition parseInt :: "jsstring \<Rightarrow> jsnum" where
  "parseInt inputString =
     (let S = dropWhile is_white_space inputString;
          sign = (if S \<noteq> [] \<and> hd S = 0x2D then - 1 else (1::int));
          S = (if S \<noteq> [] \<and> (hd S = 0x2B \<or> hd S = 0x2D) then tl S else S);
          hex = (2 \<le> length S \<and> (take 2 S = lit ''0x'' \<or> take 2 S = lit ''0X''));
          R = (if hex then 16 else 10);
          S = (if hex then drop 2 S else S);
          Z = takeWhile (is_radix_digit R) S
      in if Z = [] then NaN
         else let mathInt = digits_value R Z
              in if mathInt = 0 then (if sign = - 1 then NegZero else Fin 0)
                 else number_of_int (sign * int mathInt))"

subsection \<open>What the host provides\<close>

text \<open>
  Two conversions of the host are used by the script only to build text that is shown:
  \<^verbatim>\<open>Number::toString\<close> (a number inside a template literal or an array joined to a
  string) and \<^verbatim>\<open>StringToNumber\<close> (a price that is not a number, handed to the
  formatter). Neither can throw and neither decides a branch, so both are taken as
  parameters. So are the decimal digits that the currency formatter prints for a
  magnitude of \<open>2 ^ 53\<close> or more: there the host prints the shortest digits that
  identify the double, followed by zeros, not the digits of the exact value.
\<close>

record platform =
  NumberToString :: "jsnum \<Rightarrow> jsstring"
  StringToNumber :: "jsstring \<Rightarrow> jsnum"
  LargeNumberDigits :: "rat \<Rightarrow> jsstring"

text \<open>
  \<^verbatim>\<open>ToString\<close> as a template literal applies it. An array is joined with commas
  (\<^verbatim>\<open>Array.prototype.join\<close>: \<^verbatim>\<open>null\<close> and \<^verbatim>\<open>undefined\<close> elements give the empty
  string). A plain object is converted by \<^verbatim>\<open>OrdinaryToPrimitive\<close>: an own property
  \<^verbatim>\<open>toString\<close> of a parsed object is never callable and hides
  \<^verbatim>\<open>Object.prototype.toString\<close>, \<^verbatim>\<open>valueOf\<close> yields no primitive, and the
  conversion throws a \<^verbatim>\<open>TypeError\<close>; otherwise the text is \<^verbatim>\<open>[object Object]\<close>.
\<close>

definition has_own_property :: "(jsstring \<times> jsval) list \<Rightarrow> jsstring \<Rightarrow> bool" where
  "has_own_property kvs k = (map_of kvs k \<noteq> None)"

fun ToString :: "platform \<Rightarrow> jsval \<Rightarrow> exn + jsstring"
and join_elements :: "platform \<Rightarrow> jsval list \<Rightarrow> exn + jsstring" where
  "ToString pf JUndefined = Inr (lit ''undefined'')"
| "ToString pf JNull = Inr (lit ''null'')"
| "ToString pf (JBool b) = Inr (if b then lit ''true'' else lit ''false'')"
| "ToString pf (JNum n) = Inr (NumberToString pf n)"
| "ToString pf (JStr s) = Inr s"
| "ToString pf (JArr xs) = join_elements pf xs"
| "ToString pf (JObj kvs) =
     (if has_own_property kvs (lit ''toString'') then Inl TypeError
      else Inr (lit ''[object Object]''))"
| "join_elements pf [] = Inr []"
| "join_elements pf (x # xs) =
     (case (case x of JUndefined \<Rightarrow> Inr [] | JNull \<Rightarrow> Inr [] | _ \<Rightarrow> ToString pf x) of
        Inl e \<Rightarrow> Inl e
      | Inr s \<Rightarrow>
          (case join_elements pf xs of
             Inl e \<Rightarrow> Inl e
           | Inr r \<Rightarrow> Inr (if xs = [] then s else s @ lit '','' @ r)))"

text \<open>
  The number that \<^verbatim>\<open>Intl.NumberFormat.prototype.format\<close> formats: the argument is made
  primitive with hint \<^verbatim>\<open>number\<close> (which throws for the same objects as above), and a
  string is read as a number.
\<close>

fun ToIntlMathematicalValue :: "platform \<Rightarrow> jsval \<Rightarrow> exn + jsnum" where
  "ToIntlMathematicalValue pf JUndefined = Inr NaN"
| "ToIntlMathematicalValue pf JNull = Inr (Fin 0)"
| "ToIntlMathematicalValue pf (JBool b) = Inr (if b then Fin 1 else Fin 0)"
| "ToIntlMathematicalValue pf (JNum n) = Inr n"
| "ToIntlMathematicalValue pf (JStr s) = Inr (StringToNumber pf s)"
| "ToIntlMathematicalValue pf (JArr xs) =
     (case join_elements pf xs of Inl e \<Rightarrow> Inl e | Inr s \<Rightarrow> Inr (StringToNumber pf s))"
| "ToIntlMathematicalValue pf (JObj kvs) =
     (if has_own_property kvs (lit ''toString'') then Inl TypeError
      else Inr (StringToNumber pf (lit ''[object Object]'')))"

text \<open>
  The formatter that \<^verbatim>\<open>formatPrice\<close> builds: locale \<^verbatim>\<open>en-US\<close>, style currency, currency
  USD, no fraction digits. The magnitude is rounded to an integer, halves away from zero,
  and its digits are grouped in threes; the sign of a negative number (of \<open>-0\<close> too)
  precedes the dollar sign. Below \<open>2 ^ 53\<close> the digits are those of the rounded
  magnitude; from \<open>2 ^ 53\<close> on they are the ones the host chooses.
\<close>

definition digit_char :: "nat \<Rightarrow> 16 word" where
  "digit_char d = of_nat (0x30 + d)"

fun decimal_digits :: "nat \<Rightarrow> jsstring" where
  "decimal_digits n =
     (if n < 10 then [digit_char n] else decimal_digits (n div 10) @ [digit_char (n mod 10)])"

declare decimal_digits.simps [simp del]

fun group_reversed :: "jsstring \<Rightarrow> jsstring" where
  "group_reversed (a # b # c # d # ds) = a # b # c # 0x2C # group_reversed (d # ds)"
| "group_reversed ds = ds"

definition grouped :: "jsstring \<Rightarrow> jsstring" where
  "grouped ds = rev (group_reversed (rev ds))"

definition format_usd :: "platform \<Rightarrow> jsnum \<Rightarrow> jsstring" where
  "format_usd pf n =
     (case n of
        NaN \<Rightarrow> lit ''$NaN''
      | PosInf \<Rightarrow> lit ''$'' @ [0x221E]
      | NegInf \<Rightarrow> lit ''-$'' @ [0x221E]
      | NegZero \<Rightarrow> lit ''-$0''
      | Fin q \<Rightarrow>
          (if q < 0 then lit ''-'' else []) @ lit ''$'' @
          grouped (if \<bar>q\<bar> < 2 ^ 53 then decimal_digits (nat \<lfloor>\<bar>q\<bar> + 1 / 2\<rfloor>)
                   else LargeNumberDigits pf \<bar>q\<bar>))"

subsection \<open>JSON documents\<close>

text \<open>
  The text that \<^verbatim>\<open>JSON.stringify\<close> returns is represented by the JSON document it
  spells: a number leaf holds its value and a string leaf its code units. What is
  modelled is which document is produced: a number that is not finite becomes
  \<^verbatim>\<open>null\<close>, \<open>-0\<close> becomes \<open>0\<close>, \<^verbatim>\<open>undefined\<close> is \<^verbatim>\<open>null\<close> inside an array and is
  left out of an object.
\<close>

datatype json =
    JsonNull
  | JsonBool bool
  | JsonNumber rat
  | JsonString jsstring
  | JsonArray "json list"
  | JsonObject "(jsstring \<times> json) list"

definition SerializeNumber :: "jsnum \<Rightarrow> json" where
  "SerializeNumber n =
     (case n of Fin q \<Rightarrow> JsonNumber q | NegZero \<Rightarrow> JsonNumber 0 | _ \<Rightarrow> JsonNull)"

fun SerializeJSONProperty :: "jsval \<Rightarrow> json option"
and SerializeJSONArray :: "jsval list \<Rightarrow> json list"
and SerializeJSONObject :: "(jsstring \<times> jsval) list \<Rightarrow> (jsstring \<times> json) list" where
  "SerializeJSONProperty JUndefined = None"
| "SerializeJSONProperty JNull = Some JsonNull"
| "SerializeJSONProperty (JBool b) = Some (JsonBool b)"
| "SerializeJSONProperty (JNum n) = Some (SerializeNumber n)"
| "SerializeJSONProperty (JStr s) = Some (JsonString s)"
| "SerializeJSONProperty (JArr xs) = Some (JsonArray (SerializeJSONArray xs))"
| "SerializeJSONProperty (JObj kvs) = Some (JsonObject (SerializeJSONObject kvs))"
| "SerializeJSONArray [] = []"
| "SerializeJSONArray (x # xs) =
     (case SerializeJSONProperty x of None \<Rightarrow> JsonNull | Some j \<Rightarrow> j) # SerializeJSONArray xs"
| "SerializeJSONObject [] = []"
| "SerializeJSONObject (kv # kvs) =
     (case SerializeJSONProperty (snd kv) of
        None \<Rightarrow> SerializeJSONObject kvs
      | Some j \<Rightarrow> (fst kv, j) # SerializeJSONObject kvs)"

definition JSON_stringify :: "jsval \<Rightarrow> json option" where
  "JSON_stringify v = SerializeJSONProperty v"

text \<open>
  The value a reader of the document obtains (\<^verbatim>\<open>JSON.parse\<close>). A number is the
  double nearest to the value written (ties to the even significand, subnormals below
  \<open>2 ^ - 1022\<close>, an infinity from \<open>2 ^ 1024\<close> on). Of the members of an object with
  the same key the last one gives the value.
\<close>

definition pow2 :: "int \<Rightarrow> rat" where
  "pow2 e = (if 0 \<le> e then 2 ^ nat e else 1 / 2 ^ nat (- e))"

definition double_of_rat :: "rat \<Rightarrow> jsnum" where
  "double_of_rat q =
     (if q = 0 then Fin 0
      else
        let a = \<bar>q\<bar>;
            b = int (bit_length (nat (fst (quotient_of a)))) -
                int (bit_length (nat (snd (quotient_of a))));
            l = (if pow2 b \<le> a then b else b - 1);
            e = max (l - 52) (- 1074);
            t = a / pow2 e;
            f = \<lfloor>t\<rfloor>;
            m = (if t - of_int f > 1 / 2 \<or> (t - of_int f = 1 / 2 \<and> odd f) then f + 1 else f);
            v = of_int m * pow2 e
        in if m = 0 then (if q < 0 then NegZero else Fin 0)
           else if 2 ^ 1024 \<le> v then (if q < 0 then NegInf else PosInf)
           else Fin (if q < 0 then - v else v))"

fun last_wins :: "(jsstring \<times> jsval) list \<Rightarrow> (jsstring \<times> jsval) list" where
  "last_wins [] = []"
| "last_wins (kv # kvs) =
     (fst kv, case map_of (rev kvs) (fst kv) of None \<Rightarrow> snd kv | Some w \<Rightarrow> w) #
     filter (\<lambda>x. fst x \<noteq> fst kv) (last_wins kvs)"

fun JSON_parse :: "json \<Rightarrow> jsval" where
  "JSON_parse JsonNull = JNull"
| "JSON_parse (JsonBool b) = JBool b"
| "JSON_parse (JsonNumber q) = JNum (double_of_rat q)"
| "JSON_parse (JsonString s) = JStr s"
| "JSON_parse (JsonArray js) = JArr (map JSON_parse js)"
| "JSON_parse (JsonObject kjs) =
     JObj (last_wins (map (\<lambda>kj. (fst kj, JSON_parse (snd kj))) kjs))"

subsection \<open>Effects, and computations that may throw or stay suspended\<close>

text \<open>
  The five elements the script looks up by identifier are taken to exist, as the page
  that loads the script provides them.
\<close>

datatype element = apiStatus | predictBtn | btnText | loading | result

datatype timer_action =
    HideApiStatus  \<comment> \<open>the callback of line 12: \<^verbatim>\<open>statusEl.style.display = 'none'\<close>\<close>
  | HideResult     \<comment> \<open>the callback of line 73: \<^verbatim>\<open>resultEl.style.display = 'none'\<close>\<close>

record request =
  req_url :: jsstring
  req_method :: jsstring
  req_headers :: "(jsstring \<times> jsstring) list"
  req_body :: "json option"

datatype effect =
    PreventDefault
  | SetClassName element jsstring
  | SetTextContent element jsstring
  | SetInnerHTML element jsstring
  | SetStyleDisplay element jsstring
  | SetStyleOpacity element jsstring
  | SetDisabled element bool
  | SetTimeout timer_action nat
  | Fetch request
  | ConsoleError exn

text \<open>
  A computation yields the effects it performed, in order, and how it ended. An
  \<^verbatim>\<open>await\<close> on a promise that never settles leaves the function suspended for good.
\<close>

datatype 'a completion = Returned 'a | Thrown exn | Suspended

type_synonym 'a act = "effect list \<times> 'a completion"

definition ret :: "'a \<Rightarrow> 'a act" where
  "ret x = ([], Returned x)"

definition emit :: "effect \<Rightarrow> unit act" where
  "emit e = ([e], Returned ())"

definition throw :: "exn \<Rightarrow> 'a act" where
  "throw e = ([], Thrown e)"

definition of_sum :: "exn + 'a \<Rightarrow> 'a act" where
  "of_sum r = (case r of Inl e \<Rightarrow> throw e | Inr x \<Rightarrow> ret x)"

definition bnd :: "'a act \<Rightarrow> ('a \<Rightarrow> 'b act) \<Rightarrow> 'b act" where
  "bnd m f =
     (case m of
        (t, Returned x) \<Rightarrow> (case f x of (t', c) \<Rightarrow> (t @ t', c))
      | (t, Thrown e) \<Rightarrow> (t, Thrown e)
      | (t, Suspended) \<Rightarrow> (t, Suspended))"

definition seq :: "unit act \<Rightarrow> 'b act \<Rightarrow> 'b act" where
  "seq m n = bnd m (\<lambda>_. n)"

definition try_catch :: "'a act \<Rightarrow> (exn \<Rightarrow> 'a act) \<Rightarrow> 'a act" where
  "try_catch m handler =
     (case m of
        (t, Thrown e) \<Rightarrow> (case handler e of (t', c) \<Rightarrow> (t @ t', c))
      | (t, c) \<Rightarrow> (t, c))"

definition try_finally :: "'a act \<Rightarrow> unit act \<Rightarrow> 'a act" where
  "try_finally m finalizer =
     (case m of
        (t, Suspended) \<Rightarrow> (t, Suspended)
      | (t, c) \<Rightarrow>
          (case finalizer of
             (t', Returned _) \<Rightarrow> (t @ t', c)
           | (t', Thrown e) \<Rightarrow> (t @ t', Thrown e)
           | (t', Suspended) \<Rightarrow> (t @ t', Suspended)))"

subsection \<open>The network\<close>

datatype body_outcome =
    BodyPending        \<comment> \<open>\<^verbatim>\<open>response.json()\<close> never settles\<close>
  | BodyRejected exn   \<comment> \<open>reading or parsing the body fails\<close>
  | BodyJson jsval     \<comment> \<open>the parsed body\<close>

datatype fetch_outcome =
    FetchPending                     \<comment> \<open>\<^verbatim>\<open>fetch\<close> never settles\<close>
  | FetchRejected exn                \<comment> \<open>no response: a network-level failure\<close>
  | FetchResponse nat body_outcome   \<comment> \<open>a response with its HTTP status\<close>

record response =
  status :: nat
  json_result :: body_outcome

definition ok :: "response \<Rightarrow> bool" where
  "ok r \<longleftrightarrow> 200 \<le> status r \<and> status r \<le> 299"

definition await_fetch :: "request \<Rightarrow> fetch_outcome \<Rightarrow> response act" where
  "await_fetch rq net =
     ([Fetch rq],
      case net of
        FetchPending \<Rightarrow> Suspended
      | FetchRejected e \<Rightarrow> Thrown e
      | FetchResponse st b \<Rightarrow> Returned \<lparr>status = st, json_result = b\<rparr>)"

definition await_json :: "response \<Rightarrow> jsval act" where
  "await_json r =
     ([],
      case json_result r of
        BodyPending \<Rightarrow> Suspended
      | BodyRejected e \<Rightarrow> Thrown e
      | BodyJson v \<Rightarrow> Returned v)"

text \<open>
  Reading a property that no built-in prototype defines (the script reads
  \<^verbatim>\<open>estimated_price\<close> and \<^verbatim>\<open>error\<close>): an own property of an object, \<^verbatim>\<open>undefined\<close>
  on any other value, a \<^verbatim>\<open>TypeError\<close> on \<^verbatim>\<open>null\<close> and \<^verbatim>\<open>undefined\<close>.
\<close>

fun get_property :: "jsval \<Rightarrow> jsstring \<Rightarrow> jsval act" where
  "get_property JNull k = throw TypeError"
| "get_property JUndefined k = throw TypeError"
| "get_property (JObj kvs) k = ret (case map_of kvs k of None \<Rightarrow> JUndefined | Some v \<Rightarrow> v)"
| "get_property v k = ret JUndefined"

subsection \<open>The script\<close>

definition API_BASE_URL :: jsstring where
  "API_BASE_URL = lit ''/api''"

definition get_request :: "jsstring \<Rightarrow> request" where
  \<comment> \<open>\<^verbatim>\<open>fetch(url)\<close> with no options\<close>
  "get_request u = \<lparr>req_url = u, req_method = lit ''GET'', req_headers = [], req_body = None\<rparr>"

definition checkApiStatus :: "fetch_outcome \<Rightarrow> unit act" where
  "checkApiStatus net =
     try_catch
       (bnd (await_fetch (get_request (API_BASE_URL @ lit ''/'')) net) (\<lambda>response.
          if ok response then
            seq (emit (SetClassName apiStatus (lit ''api-status online'')))
           (seq (emit (SetTextContent apiStatus (check_mark @ lit '' API Connected'')))
           (seq (emit (SetStyleDisplay apiStatus (lit ''block'')))
                (emit (SetTimeout HideApiStatus 3000))))
          else throw (Error (lit ''API not responding''))))
       (\<lambda>error.
          seq (emit (SetClassName apiStatus (lit ''api-status offline'')))
         (seq (emit (SetTextContent apiStatus
                  (cross_mark @ lit '' API Offline - Please start the Flask server'')))
              (emit (SetStyleDisplay apiStatus (lit ''block'')))))"

definition formatPrice :: "platform \<Rightarrow> jsval \<Rightarrow> jsstring act" where
  "formatPrice pf price =
     bnd (of_sum (ToIntlMathematicalValue pf price)) (\<lambda>x. ret (format_usd pf x))"

definition setLoading :: "bool \<Rightarrow> unit act" where
  "setLoading isLoading =
     (if isLoading then
        seq (emit (SetDisabled predictBtn True))
       (seq (emit (SetStyleOpacity btnText (lit ''0'')))
            (emit (SetStyleDisplay loading (lit ''block''))))
      else
        seq (emit (SetDisabled predictBtn False))
       (seq (emit (SetStyleOpacity btnText (lit ''1'')))
            (emit (SetStyleDisplay loading (lit ''none'')))))"

definition spaces :: "nat \<Rightarrow> jsstring" where
  "spaces n = replicate n 0x20"

definition price_markup :: "jsstring \<Rightarrow> jsstring" where
  \<comment> \<open>the template literal of lines 58 to 64, line breaks and indentation included\<close>
  "price_markup formatted =
     [0xA] @ spaces 12 @ lit ''<div>'' @ party_popper @ lit '' Estimated Property Value</div>'' @
     [0xA] @ spaces 12 @ lit ''<div class=\"price-display\">'' @ formatted @ lit ''</div>'' @
     [0xA] @ spaces 12 @
       lit ''<div style=\"margin-top: 10px; font-size: 0.9rem; opacity: 0.9;\">'' @
     [0xA] @ spaces 16 @ lit ''*Estimate based on provided features'' @
     [0xA] @ spaces 12 @ lit ''</div>'' @
     [0xA] @ spaces 8"

definition message_markup :: "bool \<Rightarrow> jsstring \<Rightarrow> jsstring" where
  \<comment> \<open>the template literal of line 66\<close>
  "message_markup isError message =
     lit ''<div>'' @ (if isError then cross_mark else check_mark) @ lit '' '' @ message @
     lit ''</div>''"

definition showResult :: "platform \<Rightarrow> jsval \<Rightarrow> bool \<Rightarrow> jsval \<Rightarrow> unit act" where
  "showResult pf message isError price =
     seq (emit (SetClassName result
                  (lit ''result '' @ (if isError then lit ''error'' else lit ''success''))))
    (seq (if ToBoolean price \<and> \<not> isError then
            bnd (formatPrice pf price) (\<lambda>formatted.
              emit (SetInnerHTML result (price_markup formatted)))
          else
            bnd (of_sum (ToString pf message)) (\<lambda>text.
              emit (SetInnerHTML result (message_markup isError text))))
    (seq (emit (SetStyleDisplay result (lit ''block'')))
         (if \<not> isError then emit (SetTimeout HideResult 10000) else ret ())))"

text \<open>
  \<^verbatim>\<open>FormData\<close> is the list of the form's entries; \<^verbatim>\<open>get\<close> returns the value of the
  first entry with the name, or \<^verbatim>\<open>null\<close>. The fields of the form are text inputs and
  selects, so the value of an entry is a string.
\<close>

type_synonym FormData = "(jsstring \<times> jsstring) list"

definition FormData_get :: "FormData \<Rightarrow> string \<Rightarrow> jsval" where
  "FormData_get formData name =
     (case map_of formData (lit name) of None \<Rightarrow> JNull | Some v \<Rightarrow> JStr v)"

definition parseInt_of :: "jsval \<Rightarrow> jsnum" where
  \<comment> \<open>\<^verbatim>\<open>parseInt\<close> of a form value: the argument is converted to a string first\<close>
  "parseInt_of v = parseInt (case v of JStr s \<Rightarrow> s | _ \<Rightarrow> lit ''null'')"

definition inputFeatures :: "FormData \<Rightarrow> jsval list" where
  "inputFeatures formData =
     [JNum (parseInt_of (FormData_get formData ''area'')),
      JNum (parseInt_of (FormData_get formData ''bedrooms'')),
      JNum (parseInt_of (FormData_get formData ''bathrooms'')),
      JNum (parseInt_of (FormData_get formData ''stories'')),
      FormData_get formData ''mainroad'',
      FormData_get formData ''guestroom'',
      FormData_get formData ''basement'',
      FormData_get formData ''hotwaterheating'',
      FormData_get formData ''airconditioning'',
      JNum (parseInt_of (FormData_get formData ''parking'')),
      FormData_get formData ''prefarea'',
      FormData_get formData ''furnishingstatus'']"

definition predict_request :: "FormData \<Rightarrow> request" where
  \<comment> \<open>the arguments of the \<^verbatim>\<open>fetch\<close> of lines 106 to 114\<close>
  "predict_request formData =
     \<lparr>req_url = API_BASE_URL @ lit ''/get_predicted_price'',
      req_method = lit ''POST'',
      req_headers = [(lit ''Content-Type'', lit ''application/json'')],
      req_body = JSON_stringify (JObj [(lit ''input'', JArr (inputFeatures formData))])\<rparr>"

definition network_error_message :: jsstring where
  "network_error_message = lit ''Network error - please check if the API server is running''"

definition respond :: "platform \<Rightarrow> response \<Rightarrow> jsval \<Rightarrow> unit act" where
  \<comment> \<open>lines 118 to 122; \<^verbatim>\<open>&&\<close> reads \<^verbatim>\<open>data.estimated_price\<close> only if \<^verbatim>\<open>response.ok\<close>\<close>
  "respond pf response data =
     bnd (if ok response then
            bnd (get_property data (lit ''estimated_price'')) (\<lambda>p. ret (ToBoolean p))
          else ret False) (\<lambda>c.
       if c then
         bnd (get_property data (lit ''estimated_price'')) (\<lambda>p.
           showResult pf (JStr []) False p)
       else
         bnd (get_property data (lit ''error'')) (\<lambda>e.
           showResult pf (if ToBoolean e then e else JStr (lit ''Prediction failed'')) True JNull))"

definition try_block :: "platform \<Rightarrow> FormData \<Rightarrow> fetch_outcome \<Rightarrow> unit act" where
  \<comment> \<open>lines 86 to 122\<close>
  "try_block pf formData net =
     bnd (await_fetch (predict_request formData) net) (\<lambda>response.
     bnd (await_json response) (\<lambda>data.
       respond pf response data))"

definition catch_block :: "platform \<Rightarrow> exn \<Rightarrow> unit act" where
  \<comment> \<open>lines 125 and 126\<close>
  "catch_block pf error =
     seq (emit (ConsoleError error))
         (showResult pf (JStr network_error_message) True JNull)"

definition submit_handler :: "platform \<Rightarrow> FormData \<Rightarrow> fetch_outcome \<Rightarrow> unit act" where
  "submit_handler pf formData net =
     seq (emit PreventDefault)
    (seq (setLoading True)
         (try_finally
            (try_catch (try_block pf formData net) (catch_block pf))
            (setLoading False)))"

subsection \<open>The page\<close>

text \<open>
  The properties of the page that the script writes, the timers it has scheduled and
  the requests it has sent. \<open>innerHTML\<close> holds the markup assigned.
\<close>

record props =
  className :: jsstring
  textContent :: jsstring
  innerHTML :: jsstring
  display :: jsstring
  opacity :: jsstring
  disabled :: bool

record page =
  elements :: "element \<Rightarrow> props"
  timers :: "(timer_action \<times> nat) list"
  requests :: "request list"
  console :: "exn list"
  defaultPrevented :: bool

definition update_element :: "element \<Rightarrow> (props \<Rightarrow> props) \<Rightarrow> page \<Rightarrow> page" where
  "update_element el f p = p\<lparr>elements := (elements p)(el := f (elements p el))\<rparr>"

fun perform :: "effect \<Rightarrow> page \<Rightarrow> page" where
  "perform PreventDefault p = p\<lparr>defaultPrevented := True\<rparr>"
| "perform (SetClassName el s) p = update_element el (\<lambda>x. x\<lparr>className := s\<rparr>) p"
| "perform (SetTextContent el s) p = update_element el (\<lambda>x. x\<lparr>textContent := s\<rparr>) p"
| "perform (SetInnerHTML el s) p = update_element el (\<lambda>x. x\<lparr>innerHTML := s\<rparr>) p"
| "perform (SetStyleDisplay el s) p = update_element el (\<lambda>x. x\<lparr>display := s\<rparr>) p"
| "perform (SetStyleOpacity el s) p = update_element el (\<lambda>x. x\<lparr>opacity := s\<rparr>) p"
| "perform (SetDisabled el b) p = update_element el (\<lambda>x. x\<lparr>disabled := b\<rparr>) p"
| "perform (SetTimeout a ms) p = p\<lparr>timers := timers p @ [(a, ms)]\<rparr>"
| "perform (Fetch rq) p = p\<lparr>requests := requests p @ [rq]\<rparr>"
| "perform (ConsoleError e) p = p\<lparr>console := console p @ [e]\<rparr>"

definition run :: "effect list \<Rightarrow> page \<Rightarrow> page" where
  "run t p = foldl (\<lambda>q e. perform e q) p t"

definition timer_callback :: "timer_action \<Rightarrow> effect list" where
  "timer_callback a =
     (case a of
        HideApiStatus \<Rightarrow> [SetStyleDisplay apiStatus (lit ''none'')]
      | HideResult \<Rightarrow> [SetStyleDisplay result (lit ''none'')])"

subsection \<open>Inputs used in examples\<close>

text \<open>The sample values that the script writes into the form when the page has loaded.\<close>

definition sample_form :: FormData where
  "sample_form =
     [(lit ''area'', lit ''7420''),
      (lit ''bedrooms'', lit ''4''),
      (lit ''bathrooms'', lit ''2''),
      (lit ''stories'', lit ''3''),
      (lit ''mainroad'', lit ''yes''),
      (lit ''guestroom'', lit ''no''),
      (lit ''basement'', lit ''no''),
      (lit ''hotwaterheating'', lit ''no''),
      (lit ''airconditioning'', lit ''yes''),
      (lit ''parking'', lit ''2''),
      (lit ''prefarea'', lit ''yes''),
      (lit ''furnishingstatus'', lit ''furnished'')]"

text \<open>The same form with letters typed into the area field.\<close>

definition letters_form :: FormData where
  "letters_form = (lit ''area'', lit ''abc'') # sample_form"

text \<open>The sample form with the area field left blank: every field has one entry.\<close>

definition blank_area_form :: FormData where
  "blank_area_form = (lit ''area'', []) # tl sample_form"

text \<open>
  A platform for examples in which no conversion of the host is reached, and a page on
  which nothing has been written yet.
\<close>

definition plain_platform :: platform where
  "plain_platform =
     \<lparr>NumberToString = (\<lambda>n. []), StringToNumber = (\<lambda>s. NaN),
      LargeNumberDigits = (\<lambda>q. [])\<rparr>"

definition blank_page :: page where
  "blank_page =
     \<lparr>elements = (\<lambda>el. \<lparr>className = [], textContent = [], innerHTML = [], display = [],
                          opacity = [], disabled = False\<rparr>),
      timers = [], requests = [], console = [], defaultPrevented = False\<rparr>"

subsection \<open>Notions used in the statements\<close>

text \<open>Both promises that the handler awaits settle.\<close>

fun settles :: "fetch_outcome \<Rightarrow> bool" where
  "settles FetchPending = False"
| "settles (FetchRejected e) = True"
| "settles (FetchResponse st BodyPending) = False"
| "settles (FetchResponse st (BodyRejected e)) = True"
| "settles (FetchResponse st (BodyJson v)) = True"

text \<open>
  The effects that follow the request inside the \<^verbatim>\<open>try\<close> and \<^verbatim>\<open>catch\<close> blocks: the
  console, and writes to the result element and its timer.
\<close>

fun result_effect :: "effect \<Rightarrow> bool" where
  "result_effect (SetClassName el s) = (el = result)"
| "result_effect (SetInnerHTML el s) = (el = result)"
| "result_effect (SetStyleDisplay el s) = (el = result)"
| "result_effect (SetTimeout a ms) = (a = HideResult)"
| "result_effect (ConsoleError e) = True"
| "result_effect (Fetch rq) = False"
| "result_effect PreventDefault = False"
| "result_effect (SetTextContent el s) = False"
| "result_effect (SetStyleOpacity el s) = False"
| "result_effect (SetDisabled el b) = False"

text \<open>The array under the key \<^verbatim>\<open>input\<close> of the document that is the body of a request.\<close>

definition body_input :: "request \<Rightarrow> json list" where
  "body_input rq =
     (case req_body rq of
        Some (JsonObject kjs) \<Rightarrow>
          (case map_of kjs (lit ''input'') of Some (JsonArray js) \<Rightarrow> js | _ \<Rightarrow> [])
      | _ \<Rightarrow> [])"

section \<open>Properties\<close>

subsection \<open>String literals\<close>

lemma unat_of_char: "unat (of_char c :: 16 word) = of_char c"
proof -
  have "(of_char c :: nat) mod 256 = of_char c" by simp
  then have "(of_char c :: nat) < 256"
    by (metis mod_less_divisor zero_less_numeral)
  then have "(of_char c :: nat) < 65536" by (rule less_trans) simp
  then have "(of_char c :: nat) < 2 ^ 16" by simp
  moreover have "(of_char c :: 16 word) = of_nat (of_char c)"
    by (simp add: of_nat_of_char)
  ultimately show ?thesis
    by (simp add: unat_of_nat take_bit_nat_eq_self)
qed

lemma lit_eq_iff: "lit a = lit b \<longleftrightarrow> a = b"
proof -
  have "inj (\<lambda>c. of_char c :: 16 word)"
  proof (rule injI)
    fix x y :: char
    assume "(of_char x :: 16 word) = of_char y"
    then have "unat (of_char x :: 16 word) = unat (of_char y :: 16 word)" by simp
    then show "x = y" by (simp add: unat_of_char)
  qed
  then show ?thesis
    unfolding lit_def by (rule inj_map_eq_map)
qed

subsection \<open>Formatting\<close>

lemma half_up_of_int: "nat \<lfloor>\<bar>rat_of_int k\<bar> + 1 / 2\<rfloor> = nat \<bar>k\<bar>"
proof -
  have "\<bar>rat_of_int k\<bar> = rat_of_int \<bar>k\<bar>" by simp
  moreover have "\<lfloor>rat_of_int \<bar>k\<bar> + 1 / 2\<rfloor> = \<bar>k\<bar>"
    by (rule floor_unique) simp_all
  ultimately show ?thesis by simp
qed

lemma decimal_digits_small: "n < 10 \<Longrightarrow> decimal_digits n = [digit_char n]"
  by (simp add: decimal_digits.simps)

lemma decimal_digits_large:
  "10 \<le> n \<Longrightarrow> decimal_digits n = decimal_digits (n div 10) @ [digit_char (n mod 10)]"
  by (subst decimal_digits.simps) simp

lemma format_usd_650000: "format_usd pf (Fin 650000) = lit ''$650,000''"
  using half_up_of_int [of 650000]
  by (simp add: format_usd_def grouped_def decimal_digits_small decimal_digits_large
      digit_char_def lit_def)

lemma format_usd_minus_5: "format_usd pf (Fin (- 5)) = lit ''-$5''"
  using half_up_of_int [of "- 5"]
  by (simp add: format_usd_def grouped_def decimal_digits_small digit_char_def lit_def)

subsection \<open>The functions of the script\<close>

lemmas act_defs = ret_def emit_def throw_def of_sum_def bnd_def seq_def try_catch_def try_finally_def

lemma setLoading_True:
  "setLoading True =
     ([SetDisabled predictBtn True, SetStyleOpacity btnText (lit ''0''),
       SetStyleDisplay loading (lit ''block'')], Returned ())"
  by (simp add: setLoading_def act_defs)

lemma setLoading_False:
  "setLoading False =
     ([SetDisabled predictBtn False, SetStyleOpacity btnText (lit ''1''),
       SetStyleDisplay loading (lit ''none'')], Returned ())"
  by (simp add: setLoading_def act_defs)

lemma showResult_error:
  "showResult pf message True price =
     (case ToString pf message of
        Inl e \<Rightarrow> ([SetClassName result (lit ''result error'')], Thrown e)
      | Inr m \<Rightarrow>
          ([SetClassName result (lit ''result error''),
            SetInnerHTML result (message_markup True m),
            SetStyleDisplay result (lit ''block'')], Returned ()))"
  by (simp add: showResult_def act_defs lit_def split: sum.splits)

lemma showResult_success:
  "ToBoolean price \<Longrightarrow>
   showResult pf message False price =
     (case ToIntlMathematicalValue pf price of
        Inl e \<Rightarrow> ([SetClassName result (lit ''result success'')], Thrown e)
      | Inr x \<Rightarrow>
          ([SetClassName result (lit ''result success''),
            SetInnerHTML result (price_markup (format_usd pf x)),
            SetStyleDisplay result (lit ''block''),
            SetTimeout HideResult 10000], Returned ()))"
  by (simp add: showResult_def formatPrice_def act_defs lit_def split: sum.splits)

lemma formatPrice_eq:
  "formatPrice pf price =
     (case ToIntlMathematicalValue pf price of
        Inl e \<Rightarrow> throw e
      | Inr x \<Rightarrow> ret (format_usd pf x))"
  by (simp add: formatPrice_def act_defs split: sum.splits)

text \<open>The two template literals of \<^verbatim>\<open>showResult\<close>, written out.\<close>

lemma error_markup:
  "message_markup True m = lit ''<div>'' @ [0x274C] @ lit '' '' @ m @ lit ''</div>''"
  by (simp add: message_markup_def cross_mark_def)


lemma price_markup_explicit:
  "price_markup formatted =
     [0xA] @ replicate 12 0x20 @ lit ''<div>'' @ [0xD83C, 0xDF89] @
       lit '' Estimated Property Value</div>'' @
     [0xA] @ replicate 12 0x20 @ lit ''<div class=\"price-display\">'' @ formatted @
       lit ''</div>'' @
     [0xA] @ replicate 12 0x20 @
       lit ''<div style=\"margin-top: 10px; font-size: 0.9rem; opacity: 0.9;\">'' @
     [0xA] @ replicate 16 0x20 @ lit ''*Estimate based on provided features'' @
     [0xA] @ replicate 12 0x20 @ lit ''</div>'' @
     [0xA] @ replicate 8 0x20"
  by (simp add: price_markup_def spaces_def party_popper_def)

lemma catch_block_eq:
  "catch_block pf e =
     ([ConsoleError e, SetClassName result (lit ''result error''),
       SetInnerHTML result (message_markup True network_error_message),
       SetStyleDisplay result (lit ''block'')], Returned ())"
  by (simp add: catch_block_def showResult_error) (simp add: act_defs)


lemma try_block_rejected:
  "try_block pf fd (FetchRejected e) = ([Fetch (predict_request fd)], Thrown e)"
  by (simp add: try_block_def await_fetch_def act_defs)

lemma try_block_body_rejected:
  "try_block pf fd (FetchResponse st (BodyRejected e)) = ([Fetch (predict_request fd)], Thrown e)"
  by (simp add: try_block_def await_fetch_def await_json_def act_defs)

lemma try_block_json:
  "try_block pf fd (FetchResponse st (BodyJson d)) =
     (Fetch (predict_request fd) # fst (respond pf \<lparr>status = st, json_result = BodyJson d\<rparr> d),
      snd (respond pf \<lparr>status = st, json_result = BodyJson d\<rparr> d))"
  by (simp add: try_block_def await_fetch_def await_json_def act_defs split: prod.splits completion.splits)

lemma try_block_pending:
  "try_block pf fd FetchPending = ([Fetch (predict_request fd)], Suspended)"
  "try_block pf fd (FetchResponse st BodyPending) = ([Fetch (predict_request fd)], Suspended)"
  by (simp_all add: try_block_def await_fetch_def await_json_def act_defs)

lemma submit_handler_unfold:
  "submit_handler pf fd net =
     (case try_catch (try_block pf fd net) (catch_block pf) of
        (t, Suspended) \<Rightarrow>
          ([PreventDefault, SetDisabled predictBtn True, SetStyleOpacity btnText (lit ''0''),
            SetStyleDisplay loading (lit ''block'')] @ t, Suspended)
      | (t, c) \<Rightarrow>
          ([PreventDefault, SetDisabled predictBtn True, SetStyleOpacity btnText (lit ''0''),
            SetStyleDisplay loading (lit ''block'')] @ t @
           [SetDisabled predictBtn False, SetStyleOpacity btnText (lit ''1''),
            SetStyleDisplay loading (lit ''none'')], c))"
  by (simp add: submit_handler_def setLoading_True setLoading_False)
     (simp add: act_defs split: prod.splits completion.splits)

lemma bnd_ret: "bnd (ret x) f = f x"
  by (simp add: bnd_def ret_def split: prod.splits)

lemma bnd_throw: "bnd (throw e) f = throw e"
  by (simp add: bnd_def throw_def)

lemma get_property_uniform:
  "(\<forall>k. get_property d k = throw TypeError) \<or> (\<forall>k. \<exists>v. get_property d k = ret v)"
  by (cases d) auto

lemma respond_eq:
  assumes "get_property d (lit ''estimated_price'') = ret p"
      and "get_property d (lit ''error'') = ret e"
  shows "respond pf r d =
           (if ok r \<and> ToBoolean p then showResult pf (JStr []) False p
            else showResult pf (if ToBoolean e then e else JStr (lit ''Prediction failed''))
                   True JNull)"
  by (simp add: respond_def assms bnd_ret)

lemma respond_null:
  assumes "\<forall>k. get_property d k = throw TypeError"
  shows "respond pf r d = throw TypeError"
  by (simp add: respond_def assms bnd_ret bnd_throw)

lemma guarded_rejected:
  "try_catch (try_block pf fd (FetchRejected e)) (catch_block pf) =
     ([Fetch (predict_request fd), ConsoleError e, SetClassName result (lit ''result error''),
       SetInnerHTML result (message_markup True network_error_message),
       SetStyleDisplay result (lit ''block'')], Returned ())"
  by (simp add: try_block_rejected try_catch_def catch_block_eq)

lemma guarded_body_rejected:
  "try_catch (try_block pf fd (FetchResponse st (BodyRejected e))) (catch_block pf) =
     ([Fetch (predict_request fd), ConsoleError e, SetClassName result (lit ''result error''),
       SetInnerHTML result (message_markup True network_error_message),
       SetStyleDisplay result (lit ''block'')], Returned ())"
  by (simp add: try_block_body_rejected try_catch_def catch_block_eq)

lemma showResult_effects:
  "\<forall>e \<in> set (fst (showResult pf m b p)). result_effect e"
  by (simp add: showResult_def formatPrice_def act_defs split: sum.splits)

lemma showResult_not_suspended:
  "snd (showResult pf m b p) \<noteq> Suspended"
  by (simp add: showResult_def formatPrice_def act_defs split: sum.splits)

lemma respond_effects:
  "\<forall>e \<in> set (fst (respond pf r d)). result_effect e"
proof -
  from get_property_uniform [of d] show ?thesis
  proof
    assume "\<forall>k. get_property d k = throw TypeError"
    then show ?thesis by (simp add: respond_null throw_def)
  next
    assume a: "\<forall>k. \<exists>v. get_property d k = ret v"
    then obtain p e where "get_property d (lit ''estimated_price'') = ret p"
      and "get_property d (lit ''error'') = ret e" by metis
    then show ?thesis by (simp add: respond_eq showResult_effects)
  qed
qed

lemma respond_not_suspended:
  "snd (respond pf r d) \<noteq> Suspended"
proof -
  from get_property_uniform [of d] show ?thesis
  proof
    assume "\<forall>k. get_property d k = throw TypeError"
    then show ?thesis by (simp add: respond_null throw_def)
  next
    assume a: "\<forall>k. \<exists>v. get_property d k = ret v"
    then obtain p e where "get_property d (lit ''estimated_price'') = ret p"
      and "get_property d (lit ''error'') = ret e" by metis
    then show ?thesis by (simp add: respond_eq showResult_not_suspended)
  qed
qed

lemma guarded_trace:
  "\<exists>t. fst (try_catch (try_block pf fd net) (catch_block pf)) = Fetch (predict_request fd) # t \<and>
       (\<forall>e \<in> set t. result_effect e) \<and>
       snd (try_catch (try_block pf fd net) (catch_block pf)) =
         (if settles net then Returned () else Suspended)"
proof (cases net)
  case FetchPending
  then show ?thesis by (simp add: try_block_pending try_catch_def)
next
  case (FetchRejected e)
  then show ?thesis by (simp add: guarded_rejected)
next
  case (FetchResponse st b)
  show ?thesis
  proof (cases b)
    case BodyPending
    with FetchResponse show ?thesis by (simp add: try_block_pending try_catch_def)
  next
    case (BodyRejected e)
    with FetchResponse show ?thesis by (simp add: guarded_body_rejected)
  next
    case (BodyJson d)
    let ?r = "respond pf \<lparr>status = st, json_result = BodyJson d\<rparr> d"
    have eff: "\<forall>e \<in> set (fst ?r). result_effect e" by (rule respond_effects)
    have ns: "snd ?r \<noteq> Suspended" by (rule respond_not_suspended)
    show ?thesis
    proof (cases "snd ?r")
      case (Returned u)
      with eff FetchResponse BodyJson show ?thesis
        by (simp add: try_block_json try_catch_def)
    next
      case (Thrown e)
      with eff FetchResponse BodyJson show ?thesis
        by (simp add: try_block_json try_catch_def catch_block_eq)
    next
      case Suspended
      with ns show ?thesis by simp
    qed
  qed
qed

lemma run_append: "run (a @ b) p = run b (run a p)"
  by (simp add: run_def)

lemma run_Cons: "run (e # t) p = run t (perform e p)"
  by (simp add: run_def)

lemma run_Nil: "run [] p = p"
  by (simp add: run_def)

lemma requests_run_result:
  "\<forall>e \<in> set t. result_effect e \<Longrightarrow> requests (run t p) = requests p"
proof (induction t arbitrary: p)
  case Nil
  then show ?case by (simp add: run_Nil)
next
  case (Cons e t)
  then have "requests (perform e p) = requests p"
    by (cases e) (simp_all add: update_element_def)
  with Cons show ?case by (simp add: run_Cons)
qed

lemma count_result_effects:
  "\<forall>e \<in> set t. result_effect e \<Longrightarrow> \<not> result_effect x \<Longrightarrow> count_list t x = 0"
  by (auto simp: count_list_0_iff)


lemma submit_handler_settled:
  assumes "try_catch (try_block pf fd net) (catch_block pf) = (t, Returned ())"
  shows "submit_handler pf fd net =
           (PreventDefault # fst (setLoading True) @ t @ fst (setLoading False), Returned ())"
  by (simp add: submit_handler_unfold assms setLoading_True setLoading_False)

lemma guarded_json_returned:
  assumes "respond pf \<lparr>status = st, json_result = BodyJson d\<rparr> d = (t, Returned ())"
  shows "try_catch (try_block pf fd (FetchResponse st (BodyJson d))) (catch_block pf) =
           (Fetch (predict_request fd) # t, Returned ())"
  by (simp add: try_block_json assms try_catch_def)

lemma guarded_json_thrown:
  assumes "respond pf \<lparr>status = st, json_result = BodyJson d\<rparr> d = (t, Thrown e)"
  shows "try_catch (try_block pf fd (FetchResponse st (BodyJson d))) (catch_block pf) =
           (Fetch (predict_request fd) # t @
            [ConsoleError e, SetClassName result (lit ''result error''),
             SetInnerHTML result (message_markup True network_error_message),
             SetStyleDisplay result (lit ''block'')], Returned ())"
  by (simp add: try_block_json assms try_catch_def catch_block_eq)

lemma ok_status: "ok \<lparr>status = st, json_result = b\<rparr> \<longleftrightarrow> 200 \<le> st \<and> st \<le> 299"
  by (simp add: ok_def)

subsection \<open>Transport failures\<close>

text \<open>
  Claim C7. When \<^verbatim>\<open>fetch\<close> rejects, or reading and parsing the body of the response
  rejects, the exception is caught: it is logged on the console, the markup written to
  the result element is the error template around the fixed text
  \<^verbatim>\<open>Network error - please check if the API server is running\<close>, the class of the
  element is \<^verbatim>\<open>result error\<close>, the loading state is left, and the handler returns
  normally. The whole trace of the handler is determined.
\<close>

theorem transport_failure_is_caught:
  "submit_handler pf fd (FetchRejected e) =
     (PreventDefault # fst (setLoading True) @
      [Fetch (predict_request fd), ConsoleError e,
       SetClassName result (lit ''result error''),
       SetInnerHTML result
         (lit ''<div>'' @ [0x274C] @ lit '' '' @
          lit ''Network error - please check if the API server is running'' @
          lit ''</div>''),
       SetStyleDisplay result (lit ''block'')] @
      fst (setLoading False), Returned ()) \<and>
   submit_handler pf fd (FetchResponse st (BodyRejected e)) =
     (PreventDefault # fst (setLoading True) @
      [Fetch (predict_request fd), ConsoleError e,
       SetClassName result (lit ''result error''),
       SetInnerHTML result
         (lit ''<div>'' @ [0x274C] @ lit '' '' @
          lit ''Network error - please check if the API server is running'' @
          lit ''</div>''),
       SetStyleDisplay result (lit ''block'')] @
      fst (setLoading False), Returned ())"
  by (simp add: submit_handler_settled [OF guarded_rejected]
      submit_handler_settled [OF guarded_body_rejected] error_markup
      network_error_message_def)

theorem transport_failure_witness:
  "snd (submit_handler plain_platform sample_form (FetchRejected TypeError)) = Returned () \<and>
   innerHTML (elements (run (fst (submit_handler plain_platform sample_form
     (FetchResponse 200 (BodyRejected SyntaxError)))) blank_page) result) =
     lit ''<div>'' @ [0x274C] @ lit '' '' @ lit ''Network error - please check if the API server is running'' @ lit ''</div>''"
  using transport_failure_is_caught [of plain_platform sample_form TypeError]
    transport_failure_is_caught [of plain_platform sample_form SyntaxError 200]
  by (simp add: setLoading_True setLoading_False run_def update_element_def)

subsection \<open>Leaving the loading state\<close>

text \<open>
  Claim C3. For every submission whose two awaited promises settle, whatever the
  response or the failure, the handler returns normally and its trace ends with the
  effects of \<^verbatim>\<open>setLoading(false)\<close>: the submit control is re-enabled exactly once and
  the loading indicator is hidden exactly once, and on the page reached the control is
  enabled and the indicator hidden. Between \<^verbatim>\<open>setLoading(true)\<close> and
  \<^verbatim>\<open>setLoading(false)\<close> there is the request, and then only the console and the result
  element are written.
\<close>

theorem loading_cleared_exactly_once:
  assumes "settles net"
  shows "snd (submit_handler pf fd net) = Returned () \<and>
         count_list (fst (submit_handler pf fd net)) (SetDisabled predictBtn False) = 1 \<and>
         count_list (fst (submit_handler pf fd net)) (SetStyleDisplay loading (lit ''none'')) = 1 \<and>
         (\<exists>t. (\<forall>e \<in> set t. result_effect e) \<and>
              fst (submit_handler pf fd net) =
                PreventDefault # fst (setLoading True) @ Fetch (predict_request fd) # t @
                fst (setLoading False)) \<and>
         \<not> disabled (elements (run (fst (submit_handler pf fd net)) p) predictBtn) \<and>
         opacity (elements (run (fst (submit_handler pf fd net)) p) btnText) = lit ''1'' \<and>
         display (elements (run (fst (submit_handler pf fd net)) p) loading) = lit ''none''"
proof -
  obtain t where t: "fst (try_catch (try_block pf fd net) (catch_block pf)) =
      Fetch (predict_request fd) # t" "\<forall>e \<in> set t. result_effect e"
    "snd (try_catch (try_block pf fd net) (catch_block pf)) = Returned ()"
    using guarded_trace [of pf fd net] assms by auto
  then have "try_catch (try_block pf fd net) (catch_block pf) =
      (Fetch (predict_request fd) # t, Returned ())"
    by (simp add: prod_eq_iff)
  then have h: "submit_handler pf fd net =
      (PreventDefault # fst (setLoading True) @ (Fetch (predict_request fd) # t) @
       fst (setLoading False), Returned ())"
    by (rule submit_handler_settled)
  have c1: "count_list t (SetDisabled predictBtn False) = 0"
    using t(2) by (rule count_result_effects) simp
  have c2: "count_list t (SetStyleDisplay loading (lit ''none'')) = 0"
    using t(2) by (rule count_result_effects) simp
  have n: "lit ''block'' \<noteq> lit ''none''" by (simp add: lit_eq_iff)
  have "\<exists>t. (\<forall>e \<in> set t. result_effect e) \<and>
          fst (submit_handler pf fd net) =
            PreventDefault # fst (setLoading True) @ Fetch (predict_request fd) # t @
            fst (setLoading False)"
    using h t(2) by auto
  moreover from h c1 c2 n have "snd (submit_handler pf fd net) = Returned () \<and>
      count_list (fst (submit_handler pf fd net)) (SetDisabled predictBtn False) = 1 \<and>
      count_list (fst (submit_handler pf fd net)) (SetStyleDisplay loading (lit ''none'')) = 1 \<and>
      \<not> disabled (elements (run (fst (submit_handler pf fd net)) p) predictBtn) \<and>
      opacity (elements (run (fst (submit_handler pf fd net)) p) btnText) = lit ''1'' \<and>
      display (elements (run (fst (submit_handler pf fd net)) p) loading) = lit ''none''"
    by (simp add: setLoading_True setLoading_False run_append run_Cons run_Nil
        update_element_def)
  ultimately show ?thesis by blast
qed

theorem loading_cleared_witness:
  "settles (FetchRejected TypeError) \<and>
   count_list (fst (submit_handler plain_platform sample_form (FetchRejected TypeError)))
     (SetDisabled predictBtn False) = 1 \<and>
   \<not> disabled (elements (run (fst (submit_handler plain_platform sample_form
     (FetchRejected TypeError))) blank_page) predictBtn)"
  using loading_cleared_exactly_once [of "FetchRejected TypeError" plain_platform sample_form blank_page]
  by simp

text \<open>
  A request that never settles is the other case: the handler stays suspended after the
  request, with the control disabled and the indicator shown.
\<close>

lemma pending_submission_stays_loading:
  "\<not> settles net \<Longrightarrow>
   submit_handler pf fd net =
     (PreventDefault # fst (setLoading True) @ [Fetch (predict_request fd)], Suspended)"
proof (cases net)
  case FetchPending
  then show ?thesis
    by (simp add: submit_handler_unfold try_block_pending try_catch_def setLoading_True)
next
  case (FetchRejected e)
  assume "\<not> settles net"
  with FetchRejected show ?thesis by simp
next
  case (FetchResponse st b)
  assume "\<not> settles net"
  with FetchResponse have "b = BodyPending" by (cases b) simp_all
  with FetchResponse show ?thesis
    by (simp add: submit_handler_unfold try_block_pending try_catch_def setLoading_True)
qed

subsection \<open>The status check\<close>

text \<open>
  Claim C5. The status check has two outcomes only. A rejected request (whatever the
  exception) and a response whose status is not in 200..299 (whatever the status) give
  the same trace: the indicator is set to the offline state and shown, and no timer is
  scheduled, so nothing hides it again. A response with a status in 200..299 sets the
  connected state, shows the indicator and schedules, after 3000 ms, the callback that
  sets the display of the indicator to \<^verbatim>\<open>none\<close>: once it has run the indicator is
  hidden.
\<close>

theorem status_check_outcomes:
  "checkApiStatus (FetchRejected e) =
     ([Fetch \<lparr>req_url = lit ''/api/'', req_method = lit ''GET'', req_headers = [],
              req_body = None\<rparr>,
       SetClassName apiStatus (lit ''api-status offline''),
       SetTextContent apiStatus
         ([0x274C] @ lit '' API Offline - Please start the Flask server''),
       SetStyleDisplay apiStatus (lit ''block'')], Returned ()) \<and>
   checkApiStatus (FetchResponse st b) =
     (if 200 \<le> st \<and> st \<le> 299 then
        ([Fetch \<lparr>req_url = lit ''/api/'', req_method = lit ''GET'', req_headers = [],
                 req_body = None\<rparr>,
          SetClassName apiStatus (lit ''api-status online''),
          SetTextContent apiStatus ([0x2705] @ lit '' API Connected''),
          SetStyleDisplay apiStatus (lit ''block''),
          SetTimeout HideApiStatus 3000], Returned ())
      else
        ([Fetch \<lparr>req_url = lit ''/api/'', req_method = lit ''GET'', req_headers = [],
                 req_body = None\<rparr>,
          SetClassName apiStatus (lit ''api-status offline''),
          SetTextContent apiStatus
            ([0x274C] @ lit '' API Offline - Please start the Flask server''),
          SetStyleDisplay apiStatus (lit ''block'')], Returned ())) \<and>
   timer_callback HideApiStatus = [SetStyleDisplay apiStatus (lit ''none'')] \<and>
   timers (run (fst (checkApiStatus (FetchRejected e))) p) = timers p \<and>
   display (elements (run (fst (checkApiStatus (FetchRejected e))) p) apiStatus) = lit ''block'' \<and>
   timers (run (fst (checkApiStatus (FetchResponse st b))) p) =
     (if 200 \<le> st \<and> st \<le> 299 then timers p @ [(HideApiStatus, 3000)] else timers p) \<and>
   display (elements (run (fst (checkApiStatus (FetchResponse st b))) p) apiStatus) = lit ''block'' \<and>
   display (elements (run (timer_callback HideApiStatus)
     (run (fst (checkApiStatus (FetchResponse st b))) p)) apiStatus) = lit ''none''"
  by (simp add: checkApiStatus_def await_fetch_def ok_def API_BASE_URL_def get_request_def
      act_defs run_def update_element_def timer_callback_def cross_mark_def check_mark_def)
     (simp add: lit_def)

theorem status_check_witness:
  "checkApiStatus (FetchResponse 503 BodyPending) = checkApiStatus (FetchRejected TypeError) \<and>
   timers (run (fst (checkApiStatus (FetchResponse 200 BodyPending))) blank_page) =
     [(HideApiStatus, 3000)] \<and>
   run (timer_callback HideApiStatus) blank_page =
     run [SetStyleDisplay apiStatus (lit ''none'')] blank_page \<and>
   display (elements (run (timer_callback HideApiStatus)
     (run (fst (checkApiStatus (FetchResponse 200 BodyPending))) blank_page)) apiStatus) =
     lit ''none'' \<and>
   timers (run (fst (checkApiStatus (FetchResponse 404 BodyPending))) blank_page) = [] \<and>
   display (elements (run (fst (checkApiStatus (FetchResponse 404 BodyPending))) blank_page)
     apiStatus) = lit ''block''"
proof -
  note a = status_check_outcomes [of TypeError 503 BodyPending blank_page]
  note b = status_check_outcomes [of TypeError 200 BodyPending blank_page]
  note c = status_check_outcomes [of TypeError 404 BodyPending blank_page]
  have "checkApiStatus (FetchResponse 503 BodyPending) = checkApiStatus (FetchRejected TypeError)"
  proof -
    from a have "checkApiStatus (FetchRejected TypeError) =
      ([Fetch \<lparr>req_url = lit ''/api/'', req_method = lit ''GET'', req_headers = [],
               req_body = None\<rparr>,
        SetClassName apiStatus (lit ''api-status offline''),
        SetTextContent apiStatus
          ([0x274C] @ lit '' API Offline - Please start the Flask server''),
        SetStyleDisplay apiStatus (lit ''block'')], Returned ())"
      by blast
    moreover from a have "checkApiStatus (FetchResponse 503 BodyPending) =
      (if 200 \<le> (503::nat) \<and> (503::nat) \<le> 299 then
        ([Fetch \<lparr>req_url = lit ''/api/'', req_method = lit ''GET'', req_headers = [],
                 req_body = None\<rparr>,
          SetClassName apiStatus (lit ''api-status online''),
          SetTextContent apiStatus ([0x2705] @ lit '' API Connected''),
          SetStyleDisplay apiStatus (lit ''block''),
          SetTimeout HideApiStatus 3000], Returned ())
      else
        ([Fetch \<lparr>req_url = lit ''/api/'', req_method = lit ''GET'', req_headers = [],
                 req_body = None\<rparr>,
          SetClassName apiStatus (lit ''api-status offline''),
          SetTextContent apiStatus
            ([0x274C] @ lit '' API Offline - Please start the Flask server''),
          SetStyleDisplay apiStatus (lit ''block'')], Returned ()))"
      by blast
    ultimately show ?thesis by simp
  qed
  moreover have "timers (run (fst (checkApiStatus (FetchResponse 200 BodyPending))) blank_page) =
     [(HideApiStatus, 3000)]"
  proof -
    from b have "timers (run (fst (checkApiStatus (FetchResponse 200 BodyPending))) blank_page) =
      (if 200 \<le> (200::nat) \<and> (200::nat) \<le> 299
       then timers blank_page @ [(HideApiStatus, 3000)] else timers blank_page)"
      by blast
    then show ?thesis by (simp add: blank_page_def)
  qed
  moreover have "run (timer_callback HideApiStatus) blank_page =
     run [SetStyleDisplay apiStatus (lit ''none'')] blank_page"
  proof -
    from b have "timer_callback HideApiStatus = [SetStyleDisplay apiStatus (lit ''none'')]"
      by blast
    then show ?thesis by simp
  qed
  moreover have "display (elements (run (timer_callback HideApiStatus)
     (run (fst (checkApiStatus (FetchResponse 200 BodyPending))) blank_page)) apiStatus) =
     lit ''none''"
    using b by blast
  moreover have "timers (run (fst (checkApiStatus (FetchResponse 404 BodyPending))) blank_page) = []"
  proof -
    from c have "timers (run (fst (checkApiStatus (FetchResponse 404 BodyPending))) blank_page) =
      (if 200 \<le> (404::nat) \<and> (404::nat) \<le> 299
       then timers blank_page @ [(HideApiStatus, 3000)] else timers blank_page)"
      by blast
    then show ?thesis by (simp add: blank_page_def)
  qed
  moreover have "display (elements (run (fst (checkApiStatus (FetchResponse 404 BodyPending)))
     blank_page) apiStatus) = lit ''block''"
    using c by blast
  ultimately show ?thesis by blast
qed

subsection \<open>Rendering a price\<close>

text \<open>
  Claim C8. For a response with a success status and the body
  \<^verbatim>\<open>{"estimated_price": 650000}\<close> the markup written to the result element is the
  template of lines 58 to 64 with the text \<^verbatim>\<open>$650,000\<close> in its price element, and that
  text is what \<^verbatim>\<open>formatPrice\<close> returns for 650000: a dollar sign, groups of three
  digits separated by a comma, no decimals.
\<close>

theorem price_650000_rendered:
  assumes "200 \<le> st \<and> st \<le> 299"
  shows "submit_handler pf fd
           (FetchResponse st (BodyJson (JObj [(lit ''estimated_price'', JNum (Fin 650000))]))) =
         (PreventDefault # fst (setLoading True) @
          [Fetch (predict_request fd),
           SetClassName result (lit ''result success''),
           SetInnerHTML result
             ([0xA] @ replicate 12 0x20 @ lit ''<div>'' @ [0xD83C, 0xDF89] @
                lit '' Estimated Property Value</div>'' @
              [0xA] @ replicate 12 0x20 @ lit ''<div class=\"price-display\">'' @ lit ''$650,000'' @
                lit ''</div>'' @
              [0xA] @ replicate 12 0x20 @
                lit ''<div style=\"margin-top: 10px; font-size: 0.9rem; opacity: 0.9;\">'' @
              [0xA] @ replicate 16 0x20 @ lit ''*Estimate based on provided features'' @
              [0xA] @ replicate 12 0x20 @ lit ''</div>'' @
              [0xA] @ replicate 8 0x20),
           SetStyleDisplay result (lit ''block''),
           SetTimeout HideResult 10000] @
          fst (setLoading False), Returned ()) \<and>
         formatPrice pf (JNum (Fin 650000)) = ([], Returned (lit ''$650,000''))"
proof -
  let ?d = "JObj [(lit ''estimated_price'', JNum (Fin 650000))]"
  have "respond pf \<lparr>status = st, json_result = BodyJson ?d\<rparr> ?d =
          showResult pf (JStr []) False (JNum (Fin 650000))"
    using assms
    by (subst respond_eq [where p = "JNum (Fin 650000)" and e = JUndefined])
       (simp_all add: lit_eq_iff ok_status)
  then have "respond pf \<lparr>status = st, json_result = BodyJson ?d\<rparr> ?d =
          ([SetClassName result (lit ''result success''),
            SetInnerHTML result (price_markup (lit ''$650,000'')),
            SetStyleDisplay result (lit ''block''),
            SetTimeout HideResult 10000], Returned ())"
    by (simp add: showResult_success format_usd_650000)
  then show ?thesis
    by (simp add: submit_handler_settled [OF guarded_json_returned] formatPrice_eq
        format_usd_650000 ret_def price_markup_explicit)
qed

theorem price_650000_witness:
  "innerHTML (elements (run (fst (submit_handler plain_platform sample_form
     (FetchResponse 200 (BodyJson (JObj [(lit ''estimated_price'', JNum (Fin 650000))])))))
     blank_page) result) =
     [0xA] @ replicate 12 0x20 @ lit ''<div>'' @ [0xD83C, 0xDF89] @
       lit '' Estimated Property Value</div>'' @
     [0xA] @ replicate 12 0x20 @ lit ''<div class=\"price-display\">'' @ lit ''$650,000'' @
       lit ''</div>'' @
     [0xA] @ replicate 12 0x20 @
       lit ''<div style=\"margin-top: 10px; font-size: 0.9rem; opacity: 0.9;\">'' @
     [0xA] @ replicate 16 0x20 @ lit ''*Estimate based on provided features'' @
     [0xA] @ replicate 12 0x20 @ lit ''</div>'' @
     [0xA] @ replicate 8 0x20 \<and>
   formatPrice plain_platform (JNum (Fin 650000)) = ([], Returned (lit ''$650,000''))"
proof -
  have a: "200 \<le> (200::nat) \<and> (200::nat) \<le> 299" by simp
  from price_650000_rendered [OF a, of plain_platform sample_form]
  show ?thesis
    by (simp add: setLoading_True setLoading_False run_def update_element_def)
qed

subsection \<open>Prices that are not positive numbers\<close>

text \<open>
  Claim C9, as amended. The success check is a truthiness test and nothing else guards
  the price: for every response with a success status whose \<^verbatim>\<open>estimated_price\<close> is
  truthy and for which \<^verbatim>\<open>formatPrice\<close> returns, the success branch is taken and the
  markup written is the template of lines 58 to 64 with the text returned by
  \<^verbatim>\<open>formatPrice\<close> in its price element. For every number, every string and every
  boolean \<^verbatim>\<open>formatPrice\<close> returns.
\<close>

theorem truthy_price_rendered:
  assumes "200 \<le> st \<and> st \<le> 299"
      and "get_property d (lit ''estimated_price'') = ret price"
      and "ToBoolean price"
      and "formatPrice pf price = ret formatted"
  shows "submit_handler pf fd (FetchResponse st (BodyJson d)) =
         (PreventDefault # fst (setLoading True) @
          [Fetch (predict_request fd),
           SetClassName result (lit ''result success''),
           SetInnerHTML result
             ([0xA] @ replicate 12 0x20 @ lit ''<div>'' @ [0xD83C, 0xDF89] @
                lit '' Estimated Property Value</div>'' @
              [0xA] @ replicate 12 0x20 @ lit ''<div class=\"price-display\">'' @ formatted @
                lit ''</div>'' @
              [0xA] @ replicate 12 0x20 @
                lit ''<div style=\"margin-top: 10px; font-size: 0.9rem; opacity: 0.9;\">'' @
              [0xA] @ replicate 16 0x20 @ lit ''*Estimate based on provided features'' @
              [0xA] @ replicate 12 0x20 @ lit ''</div>'' @
              [0xA] @ replicate 8 0x20),
           SetStyleDisplay result (lit ''block''),
           SetTimeout HideResult 10000] @
          fst (setLoading False), Returned ()) \<and>
         formatPrice pf (JNum n) = ret (format_usd pf n) \<and>
         formatPrice pf (JStr s) = ret (format_usd pf (StringToNumber pf s)) \<and>
         formatPrice pf (JBool b) = ret (format_usd pf (if b then Fin 1 else Fin 0))"
proof -
  obtain e where "get_property d (lit ''error'') = ret e"
    using get_property_uniform [of d] assms(2) by (auto simp: act_defs)
  with assms have r: "respond pf \<lparr>status = st, json_result = BodyJson d\<rparr> d =
          showResult pf (JStr []) False price"
    by (simp add: respond_eq ok_status)
  obtain x where x: "ToIntlMathematicalValue pf price = Inr x" "format_usd pf x = formatted"
    using assms(4) by (cases "ToIntlMathematicalValue pf price") (simp_all add: formatPrice_eq act_defs)
  with r assms(3) have "respond pf \<lparr>status = st, json_result = BodyJson d\<rparr> d =
          ([SetClassName result (lit ''result success''),
            SetInnerHTML result (price_markup formatted),
            SetStyleDisplay result (lit ''block''),
            SetTimeout HideResult 10000], Returned ())"
    by (simp add: showResult_success)
  then show ?thesis
    by (simp add: submit_handler_settled [OF guarded_json_returned] formatPrice_eq
        price_markup_explicit)
qed

theorem truthy_price_witness:
  "ToBoolean (JNum (Fin (- 5))) \<and>
   formatPrice plain_platform (JNum (Fin (- 5))) = ([], Returned (lit ''-$5'')) \<and>
   innerHTML (elements (run (fst (submit_handler plain_platform sample_form
     (FetchResponse 200 (BodyJson (JObj [(lit ''estimated_price'', JNum (Fin (- 5)))])))))
     blank_page) result) =
     [0xA] @ replicate 12 0x20 @ lit ''<div>'' @ [0xD83C, 0xDF89] @
       lit '' Estimated Property Value</div>'' @
     [0xA] @ replicate 12 0x20 @ lit ''<div class=\"price-display\">'' @ lit ''-$5'' @
       lit ''</div>'' @
     [0xA] @ replicate 12 0x20 @
       lit ''<div style=\"margin-top: 10px; font-size: 0.9rem; opacity: 0.9;\">'' @
     [0xA] @ replicate 16 0x20 @ lit ''*Estimate based on provided features'' @
     [0xA] @ replicate 12 0x20 @ lit ''</div>'' @
     [0xA] @ replicate 8 0x20"
proof -
  let ?d = "JObj [(lit ''estimated_price'', JNum (Fin (- 5)))]"
  have a: "200 \<le> (200::nat) \<and> (200::nat) \<le> 299" by simp
  have b: "get_property ?d (lit ''estimated_price'') = ret (JNum (Fin (- 5)))" by simp
  have c: "ToBoolean (JNum (Fin (- 5)))" by simp
  have d: "formatPrice plain_platform (JNum (Fin (- 5))) = ret (lit ''-$5'')"
    by (simp add: formatPrice_eq format_usd_minus_5)
  from truthy_price_rendered [OF a b c d, of sample_form] c d
  show ?thesis
    by (simp add: ret_def setLoading_True setLoading_False run_def update_element_def)
qed

text \<open>
  The claim as stated (every truthy price is rendered as a formatted price) fails for a
  price that is an object with an own property \<^verbatim>\<open>toString\<close>: the body
  \<^verbatim>\<open>{"estimated_price": {"toString": null}}\<close> is truthy, the success branch is entered
  and sets the class of the result element, \<^verbatim>\<open>formatPrice\<close> throws while making the price
  primitive, and the \<^verbatim>\<open>catch\<close> block renders the network-error message.
\<close>

theorem truthy_object_price_counterexample:
  "ToBoolean (JObj [(lit ''toString'', JNull)]) \<and>
   formatPrice plain_platform (JObj [(lit ''toString'', JNull)]) = ([], Thrown TypeError) \<and>
   submit_handler plain_platform sample_form
     (FetchResponse 200 (BodyJson
        (JObj [(lit ''estimated_price'', JObj [(lit ''toString'', JNull)])]))) =
     (PreventDefault # fst (setLoading True) @
      [Fetch (predict_request sample_form),
       SetClassName result (lit ''result success''),
       ConsoleError TypeError,
       SetClassName result (lit ''result error''),
       SetInnerHTML result
         (lit ''<div>'' @ [0x274C] @ lit '' '' @ lit ''Network error - please check if the API server is running'' @ lit ''</div>''),
       SetStyleDisplay result (lit ''block'')] @
      fst (setLoading False), Returned ()) \<and>
   innerHTML (elements (run (fst (submit_handler plain_platform sample_form
     (FetchResponse 200 (BodyJson
        (JObj [(lit ''estimated_price'', JObj [(lit ''toString'', JNull)])]))))) blank_page)
     result) =
     lit ''<div>'' @ [0x274C] @ lit '' '' @ lit ''Network error - please check if the API server is running'' @ lit ''</div>''"
proof -
  let ?price = "JObj [(lit ''toString'', JNull)]"
  let ?d = "JObj [(lit ''estimated_price'', ?price)]"
  have f: "formatPrice plain_platform ?price = ([], Thrown TypeError)"
    by (simp add: formatPrice_eq has_own_property_def throw_def)
  have "respond plain_platform \<lparr>status = 200, json_result = BodyJson ?d\<rparr> ?d =
          showResult plain_platform (JStr []) False ?price"
    by (subst respond_eq [where p = ?price and e = JUndefined])
       (simp_all add: lit_eq_iff ok_status)
  then have "respond plain_platform \<lparr>status = 200, json_result = BodyJson ?d\<rparr> ?d =
          ([SetClassName result (lit ''result success'')], Thrown TypeError)"
    by (simp add: showResult_success has_own_property_def)
  then have "submit_handler plain_platform sample_form (FetchResponse 200 (BodyJson ?d)) =
     (PreventDefault # fst (setLoading True) @
      [Fetch (predict_request sample_form),
       SetClassName result (lit ''result success''),
       ConsoleError TypeError,
       SetClassName result (lit ''result error''),
       SetInnerHTML result
         (lit ''<div>'' @ [0x274C] @ lit '' '' @ lit ''Network error - please check if the API server is running'' @ lit ''</div>''),
       SetStyleDisplay result (lit ''block'')] @
      fst (setLoading False), Returned ())"
    by (simp add: submit_handler_settled [OF guarded_json_thrown] error_markup
        network_error_message_def)
  with f show ?thesis
    by (simp add: setLoading_True setLoading_False run_def update_element_def)
qed

subsection \<open>The error branch\<close>








subsection \<open>Evaluating \<^verbatim>\<open>parseInt\<close>\<close>

lemma bit_length_bound: "n < 2 ^ k \<Longrightarrow> bit_length n \<le> k"
proof (induction k arbitrary: n)
  case 0
  then show ?case by (simp add: bit_length.simps)
next
  case (Suc k)
  show ?case
  proof (cases "n = 0")
    case True
    then show ?thesis by (simp add: bit_length.simps)
  next
    case False
    from Suc.prems have "n div 2 < 2 ^ k" by simp
    then have "bit_length (n div 2) \<le> k" by (rule Suc.IH)
    with False show ?thesis by (subst bit_length.simps) simp
  qed
qed

lemma number_of_int_small:
  assumes "\<bar>i\<bar> < 2 ^ 53"
  shows "number_of_int i = Fin (of_int i)"
proof -
  have "nat \<bar>i\<bar> < 2 ^ 53" using assms by (simp add: nat_less_iff)
  then have "bit_length (nat \<bar>i\<bar>) - 53 = 0"
    using bit_length_bound [of "nat \<bar>i\<bar>" 53] by simp
  moreover have "\<not> (2 ^ 1024 \<le> nat \<bar>i\<bar>)"
  proof -
    have "(2::nat) ^ 53 \<le> 2 ^ 1024" by (rule power_increasing) simp_all
    with \<open>nat \<bar>i\<bar> < 2 ^ 53\<close> show ?thesis by linarith
  qed
  moreover have "sgn i * \<bar>i\<bar> = i" by (simp add: mult_sgn_abs)
  ultimately show ?thesis
    by (simp add: number_of_int_def Let_def del: power_increasing_iff)
qed

lemma parseInt_abc: "parseInt (lit ''abc'') = NaN"
  by (simp add: parseInt_def lit_def is_white_space_def is_radix_digit_def digit_value_def)

lemma letters_form_area: "FormData_get letters_form ''area'' = JStr (lit ''abc'')"
  by (simp add: FormData_get_def letters_form_def)

subsection \<open>The request\<close>

lemma one_request_sent:
  "requests (run (fst (submit_handler pf fd net)) p) = requests p @ [predict_request fd]"
proof -
  obtain t where t: "fst (try_catch (try_block pf fd net) (catch_block pf)) =
      Fetch (predict_request fd) # t" "\<forall>e \<in> set t. result_effect e"
    using guarded_trace [of pf fd net] by auto
  obtain c where c: "try_catch (try_block pf fd net) (catch_block pf) =
      (Fetch (predict_request fd) # t, c)"
    using t(1) by (cases "try_catch (try_block pf fd net) (catch_block pf)") simp
  have r: "\<And>q. requests (run t q) = requests q"
    using t(2) by (rule requests_run_result)
  show ?thesis
    by (cases c)
       (simp_all add: submit_handler_unfold c run_append run_Cons run_Nil r update_element_def)
qed

lemma FormData_get_Some:
  "map_of fd (lit name) = Some v \<Longrightarrow> FormData_get fd name = JStr v"
  by (simp add: FormData_get_def)

lemma parseInt_empty: "parseInt [] = NaN"
  by (simp add: parseInt_def)

text \<open>
  Claim C1, as amended. When the form holds a value for each of its twelve fields and
  \<^verbatim>\<open>parseInt\<close> reads a finite number from each of the five integer fields, the array
  built by the handler has exactly twelve elements in the order area, bedrooms,
  bathrooms, stories, mainroad, guestroom, basement, hotwaterheating, airconditioning,
  parking, prefarea, furnishingstatus: positions 0 to 3 and 9 hold the numbers read, the
  other positions the strings of the fields. The request is a POST to
  \<^verbatim>\<open>/api/get_predicted_price\<close> whose body is the document \<^verbatim>\<open>{"input": [...]}\<close> of these
  twelve values in the same order, and it is the one request that the handler sends.
\<close>

theorem request_array_order:
  assumes "map_of fd (lit ''area'') = Some area"
      and "map_of fd (lit ''bedrooms'') = Some bedrooms"
      and "map_of fd (lit ''bathrooms'') = Some bathrooms"
      and "map_of fd (lit ''stories'') = Some stories"
      and "map_of fd (lit ''mainroad'') = Some mainroad"
      and "map_of fd (lit ''guestroom'') = Some guestroom"
      and "map_of fd (lit ''basement'') = Some basement"
      and "map_of fd (lit ''hotwaterheating'') = Some hotwaterheating"
      and "map_of fd (lit ''airconditioning'') = Some airconditioning"
      and "map_of fd (lit ''parking'') = Some parking"
      and "map_of fd (lit ''prefarea'') = Some prefarea"
      and "map_of fd (lit ''furnishingstatus'') = Some furnishingstatus"
      and "parseInt area = Fin n_area"
      and "parseInt bedrooms = Fin n_bedrooms"
      and "parseInt bathrooms = Fin n_bathrooms"
      and "parseInt stories = Fin n_stories"
      and "parseInt parking = Fin n_parking"
  shows "inputFeatures fd =
           [JNum (Fin n_area), JNum (Fin n_bedrooms), JNum (Fin n_bathrooms),
            JNum (Fin n_stories), JStr mainroad, JStr guestroom, JStr basement,
            JStr hotwaterheating, JStr airconditioning, JNum (Fin n_parking),
            JStr prefarea, JStr furnishingstatus] \<and>
         length (inputFeatures fd) = 12 \<and>
         predict_request fd =
           \<lparr>req_url = lit ''/api/get_predicted_price'',
            req_method = lit ''POST'',
            req_headers = [(lit ''Content-Type'', lit ''application/json'')],
            req_body = Some (JsonObject [(lit ''input'', JsonArray
              [JsonNumber n_area, JsonNumber n_bedrooms, JsonNumber n_bathrooms,
               JsonNumber n_stories, JsonString mainroad, JsonString guestroom,
               JsonString basement, JsonString hotwaterheating, JsonString airconditioning,
               JsonNumber n_parking, JsonString prefarea, JsonString furnishingstatus])])\<rparr> \<and>
         requests (run (fst (submit_handler pf fd net)) p) = requests p @ [predict_request fd]"
proof -
  have a: "inputFeatures fd =
           [JNum (Fin n_area), JNum (Fin n_bedrooms), JNum (Fin n_bathrooms),
            JNum (Fin n_stories), JStr mainroad, JStr guestroom, JStr basement,
            JStr hotwaterheating, JStr airconditioning, JNum (Fin n_parking),
            JStr prefarea, JStr furnishingstatus]"
    by (simp add: inputFeatures_def assms FormData_get_Some parseInt_of_def)
  have u: "API_BASE_URL @ lit ''/get_predicted_price'' = lit ''/api/get_predicted_price''"
    by (simp add: API_BASE_URL_def lit_def)
  from a u show ?thesis
    by (simp add: predict_request_def JSON_stringify_def SerializeNumber_def one_request_sent)
qed

theorem request_array_witness:
  "parseInt (lit ''7420'') = Fin 7420 \<and>
   inputFeatures sample_form =
     [JNum (Fin 7420), JNum (Fin 4), JNum (Fin 2), JNum (Fin 3), JStr (lit ''yes''),
      JStr (lit ''no''), JStr (lit ''no''), JStr (lit ''no''), JStr (lit ''yes''),
      JNum (Fin 2), JStr (lit ''yes''), JStr (lit ''furnished'')] \<and>
   req_body (predict_request sample_form) =
     Some (JsonObject [(lit ''input'', JsonArray
       [JsonNumber 7420, JsonNumber 4, JsonNumber 2, JsonNumber 3, JsonString (lit ''yes''),
        JsonString (lit ''no''), JsonString (lit ''no''), JsonString (lit ''no''),
        JsonString (lit ''yes''), JsonNumber 2, JsonString (lit ''yes''),
        JsonString (lit ''furnished'')])])"
proof -
  have p: "parseInt (lit ''7420'') = Fin 7420" "parseInt (lit ''4'') = Fin 4"
    "parseInt (lit ''2'') = Fin 2" "parseInt (lit ''3'') = Fin 3"
    by (simp_all add: parseInt_def lit_def is_white_space_def is_radix_digit_def
        digit_value_def digits_value_def number_of_int_small Let_def)
  have m: "map_of sample_form (lit ''area'') = Some (lit ''7420'')"
    "map_of sample_form (lit ''bedrooms'') = Some (lit ''4'')"
    "map_of sample_form (lit ''bathrooms'') = Some (lit ''2'')"
    "map_of sample_form (lit ''stories'') = Some (lit ''3'')"
    "map_of sample_form (lit ''mainroad'') = Some (lit ''yes'')"
    "map_of sample_form (lit ''guestroom'') = Some (lit ''no'')"
    "map_of sample_form (lit ''basement'') = Some (lit ''no'')"
    "map_of sample_form (lit ''hotwaterheating'') = Some (lit ''no'')"
    "map_of sample_form (lit ''airconditioning'') = Some (lit ''yes'')"
    "map_of sample_form (lit ''parking'') = Some (lit ''2'')"
    "map_of sample_form (lit ''prefarea'') = Some (lit ''yes'')"
    "map_of sample_form (lit ''furnishingstatus'') = Some (lit ''furnished'')"
    by (simp_all add: sample_form_def lit_eq_iff)
  from request_array_order [OF m p(1) p(2) p(3) p(4) p(3),
      of plain_platform FetchPending blank_page] p(1)
  show ?thesis by simp
qed

text \<open>
  The claim as stated covers every form whose twelve fields are present. With the area
  field left blank every field is present, \<^verbatim>\<open>parseInt\<close> reads no number from the area,
  the array holds \<open>NaN\<close> at position 0 and the body of the request holds \<^verbatim>\<open>null\<close>
  there, not an integer.
\<close>

theorem blank_area_counterexample:
  "map_of blank_area_form (lit ''area'') = Some [] \<and>
   map_of blank_area_form (lit ''bedrooms'') = Some (lit ''4'') \<and>
   map_of blank_area_form (lit ''bathrooms'') = Some (lit ''2'') \<and>
   map_of blank_area_form (lit ''stories'') = Some (lit ''3'') \<and>
   map_of blank_area_form (lit ''mainroad'') = Some (lit ''yes'') \<and>
   map_of blank_area_form (lit ''guestroom'') = Some (lit ''no'') \<and>
   map_of blank_area_form (lit ''basement'') = Some (lit ''no'') \<and>
   map_of blank_area_form (lit ''hotwaterheating'') = Some (lit ''no'') \<and>
   map_of blank_area_form (lit ''airconditioning'') = Some (lit ''yes'') \<and>
   map_of blank_area_form (lit ''parking'') = Some (lit ''2'') \<and>
   map_of blank_area_form (lit ''prefarea'') = Some (lit ''yes'') \<and>
   map_of blank_area_form (lit ''furnishingstatus'') = Some (lit ''furnished'') \<and>
   parseInt [] = NaN \<and>
   inputFeatures blank_area_form ! 0 = JNum NaN \<and>
   length (body_input (predict_request blank_area_form)) = 12 \<and>
   body_input (predict_request blank_area_form) ! 0 = JsonNull"
proof -
  have m: "map_of blank_area_form (lit ''area'') = Some []"
    "map_of blank_area_form (lit ''bedrooms'') = Some (lit ''4'')"
    "map_of blank_area_form (lit ''bathrooms'') = Some (lit ''2'')"
    "map_of blank_area_form (lit ''stories'') = Some (lit ''3'')"
    "map_of blank_area_form (lit ''mainroad'') = Some (lit ''yes'')"
    "map_of blank_area_form (lit ''guestroom'') = Some (lit ''no'')"
    "map_of blank_area_form (lit ''basement'') = Some (lit ''no'')"
    "map_of blank_area_form (lit ''hotwaterheating'') = Some (lit ''no'')"
    "map_of blank_area_form (lit ''airconditioning'') = Some (lit ''yes'')"
    "map_of blank_area_form (lit ''parking'') = Some (lit ''2'')"
    "map_of blank_area_form (lit ''prefarea'') = Some (lit ''yes'')"
    "map_of blank_area_form (lit ''furnishingstatus'') = Some (lit ''furnished'')"
    by (simp_all add: blank_area_form_def sample_form_def lit_eq_iff)
  have "FormData_get blank_area_form ''area'' = JStr []"
    by (simp add: FormData_get_def m)
  then have "inputFeatures blank_area_form ! 0 = JNum NaN \<and>
      length (body_input (predict_request blank_area_form)) = 12 \<and>
      body_input (predict_request blank_area_form) ! 0 = JsonNull"
    by (simp add: inputFeatures_def body_input_def predict_request_def JSON_stringify_def
        SerializeNumber_def parseInt_of_def parseInt_empty)
  with m parseInt_empty show ?thesis by simp
qed

subsection \<open>Fields that do not parse\<close>

text \<open>
  Claim C6, as amended. When one of the five integer fields (area, bedrooms, bathrooms,
  stories, parking) does not parse, \<open>NaN\<close> is placed as it is in the request array at the
  position of the field, and the request is sent all the same: nothing validates or
  rejects the input before the dispatch. In the body that is sent the position holds
  \<^verbatim>\<open>null\<close>.
\<close>

theorem unparsable_field_is_dispatched:
  assumes "(name, i) \<in> set [(''area'', 0), (''bedrooms'', 1), (''bathrooms'', 2),
             (''stories'', 3), (''parking'', 9)]"
      and "parseInt_of (FormData_get fd name) = NaN"
  shows "inputFeatures fd ! i = JNum NaN \<and>
         body_input (predict_request fd) ! i = JsonNull \<and>
         length (body_input (predict_request fd)) = 12 \<and>
         requests (run (fst (submit_handler pf fd net)) p) = requests p @ [predict_request fd]"
  using assms
  by (auto simp: inputFeatures_def body_input_def predict_request_def JSON_stringify_def
      SerializeNumber_def one_request_sent)

theorem unparsable_field_witness:
  "parseInt_of (FormData_get letters_form ''area'') = NaN \<and>
   inputFeatures letters_form ! 0 = JNum NaN \<and>
   requests (run (fst (submit_handler plain_platform letters_form FetchPending)) blank_page) =
     [predict_request letters_form]"
proof -
  have a: "(''area'', 0) \<in> set [(''area'', 0::nat), (''bedrooms'', 1), (''bathrooms'', 2),
             (''stories'', 3), (''parking'', 9)]" by simp
  have b: "parseInt_of (FormData_get letters_form ''area'') = NaN"
    by (simp add: letters_form_area parseInt_of_def parseInt_abc)
  from unparsable_field_is_dispatched [OF a b, of plain_platform FetchPending blank_page] b
  show ?thesis by (simp add: blank_page_def)
qed

text \<open>
  The claim as stated has \<open>NaN\<close> forwarded as it is in the body of the request. With
  letters in the area field the array holds \<open>NaN\<close> at position 0, but the body holds
  \<^verbatim>\<open>null\<close> there, and a reader of the body obtains \<^verbatim>\<open>null\<close>, not the value of the
  array.
\<close>

theorem nan_not_forwarded_counterexample:
  "parseInt_of (FormData_get letters_form ''area'') = NaN \<and>
   inputFeatures letters_form ! 0 = JNum NaN \<and>
   body_input (predict_request letters_form) ! 0 = JsonNull \<and>
   JSON_parse (body_input (predict_request letters_form) ! 0) \<noteq> inputFeatures letters_form ! 0"
  by (simp add: inputFeatures_def body_input_def predict_request_def JSON_stringify_def
      SerializeNumber_def letters_form_area parseInt_of_def parseInt_abc)

text \<open>
  Claim C10. When the area field does not parse, the body of the request has
  \<^verbatim>\<open>null\<close> at position 0 of its input array, because \<^verbatim>\<open>JSON.stringify\<close> writes
  \<open>NaN\<close> as \<^verbatim>\<open>null\<close>.
\<close>

theorem unparsable_area_sent_as_null:
  assumes "parseInt_of (FormData_get fd ''area'') = NaN"
  shows "body_input (predict_request fd) ! 0 = JsonNull \<and>
         JSON_stringify (JNum NaN) = Some JsonNull \<and>
         requests (run (fst (submit_handler pf fd net)) p) = requests p @ [predict_request fd]"
  using assms
  by (simp add: inputFeatures_def body_input_def predict_request_def JSON_stringify_def
      SerializeNumber_def one_request_sent)

theorem unparsable_area_witness:
  "parseInt (lit ''abc'') = NaN \<and>
   body_input (predict_request letters_form) ! 0 = JsonNull"
proof -
  have "parseInt_of (FormData_get letters_form ''area'') = NaN"
    by (simp add: letters_form_area parseInt_of_def parseInt_abc)
  from unparsable_area_sent_as_null [OF this, of plain_platform FetchPending blank_page]
  show ?thesis by (simp add: parseInt_abc)
qed


end

